theory Spec2Isabelle
  imports Main "HOL-Library.Word"
begin

section \<open>Error values\<close>

text \<open>
  Go's \<open>error\<close> interface values that occur in the packages \<open>initstatus\<close>, \<open>monitor\<close>
  and \<open>daemon\<close>. \<open>errors.New\<close> (and \<open>fmt.Errorf\<close> without \<open>%w\<close>) returns a pointer to a
  freshly allocated \<open>errorString\<close>: \<open>ErrorString a s\<close> is the one at address \<open>a\<close> with text
  \<open>s\<close>. Two such values are the same error exactly when their addresses agree, whatever
  their texts. \<open>WrapError m e\<close> is \<open>fmt.Errorf\<close> with \<open>%w\<close>: text \<open>m\<close>, \<open>Unwrap\<close> gives \<open>e\<close>.
  \<open>ErrInvalid\<close> and \<open>ErrClosed\<close> are the package-level variables of \<open>os\<close>, \<open>Canceled\<close> and
  \<open>DeadlineExceeded\<close> those of \<open>context\<close>. \<open>SysError s\<close> is any error without an \<open>Is\<close>
  method made by the operating system or by another package (an exit status, a failed
  read, a failed lookup), told by its text. \<open>IsError m q\<close> is an error, with text \<open>m\<close>, of a
  type that has a method \<open>Is(target error) bool\<close>; \<open>q\<close> says what the method answers. No
  code outside \<open>Receiver\<close> holds the sentinel's pointer, so for a target made by
  \<open>errors.New\<close> such a method can tell nothing but the target's text.
\<close>

datatype is_method = AnyTarget | TargetText string | NoTarget

datatype error =
    ErrorString nat string
  | WrapError string error
  | ErrInvalid
  | ErrClosed
  | Canceled
  | DeadlineExceeded
  | SysError string
  | IsError string is_method

text \<open>The method \<open>Error()\<close>.\<close>

fun Error :: "error \<Rightarrow> string" where
  "Error (ErrorString a s) = s"
| "Error (WrapError m e) = m"
| "Error ErrInvalid = ''invalid argument''"
| "Error ErrClosed = ''file already closed''"
| "Error Canceled = ''context canceled''"
| "Error DeadlineExceeded = ''context deadline exceeded''"
| "Error (SysError s) = s"
| "Error (IsError m q) = m"

text \<open>What an \<open>Is\<close> method answers for a target with the given text.\<close>

fun answers :: "is_method \<Rightarrow> string \<Rightarrow> bool" where
  "answers AnyTarget t = True"
| "answers (TargetText s) t = (t = s)"
| "answers NoTarget t = False"

text \<open>
  \<open>errors.Is(err, target)\<close>, going down the chain of \<open>err\<close>: \<open>err == target\<close> (pointer
  comparison for an \<open>errorString\<close>), or the \<open>Is\<close> method of \<open>err\<close> answers true for
  \<open>target\<close>, or the same holds of what \<open>err\<close> wraps.
\<close>

fun errors_Is :: "error \<Rightarrow> error \<Rightarrow> bool" where
  "errors_Is (ErrorString a s) t = (case t of ErrorString b u \<Rightarrow> a = b | _ \<Rightarrow> False)"
| "errors_Is (WrapError m e) t = (WrapError m e = t \<or> errors_Is e t)"
| "errors_Is ErrInvalid t = (t = ErrInvalid)"
| "errors_Is ErrClosed t = (t = ErrClosed)"
| "errors_Is Canceled t = (t = Canceled)"
| "errors_Is DeadlineExceeded t = (t = DeadlineExceeded)"
| "errors_Is (SysError s) t = (t = SysError s)"
| "errors_Is (IsError m q) t = (IsError m q = t \<or> answers q (Error t))"

section \<open>Cancellable contexts\<close>

text \<open>
  A \<open>context.Context\<close> is either live (\<open>None\<close>) or done with a cause (\<open>Some c\<close>):
  \<open>ctx.Done()\<close> is closed and \<open>ctx.Err()\<close> is non-nil exactly when it is done, and
  \<open>context.Cause(ctx)\<close> is the cause. The cancel function of \<open>context.WithCancelCause\<close>
  records its argument the first time it is called (\<open>context.Canceled\<close> for nil) and does
  nothing later. A derived context starts in its parent's state and is cancelled with the
  parent's cause when the parent is.
\<close>

type_synonym ctx = "error option"

definition cancel :: "error option \<Rightarrow> ctx \<Rightarrow> ctx" where
  "cancel cause c =
     (case c of
        None \<Rightarrow> Some (case cause of None \<Rightarrow> Canceled | Some e \<Rightarrow> e)
      | Some x \<Rightarrow> Some x)"

definition WithCancelCause :: "ctx \<Rightarrow> ctx" where
  "WithCancelCause parent = parent"

text \<open>
  A \<open>select\<close> over the \<open>Done\<close> channels of two contexts, reading the cause of the one
  taken: it blocks (\<open>None\<close>) while both are live, takes the one that is done, and when
  both are done takes either; \<open>first\<close> is the choice the runtime makes then.
\<close>

definition select_cause :: "bool \<Rightarrow> ctx \<Rightarrow> ctx \<Rightarrow> error option" where
  "select_cause first a b =
     (case a of
        None \<Rightarrow> b
      | Some ca \<Rightarrow>
          (case b of
             None \<Rightarrow> Some ca
           | Some cb \<Rightarrow> Some (if first then ca else cb)))"

section \<open>Package initstatus\<close>

text \<open>
  What \<open>Receiver\<close> creates: the sentinel \<open>errReady\<close>, the context \<open>rctx\<close> and the
  server's address. The natural number threaded through is the next free address of the
  allocator.
\<close>

record endpoint =
  errReady :: error
  rctx :: ctx
  URL :: string

definition Receiver :: "ctx \<Rightarrow> nat \<Rightarrow> string \<Rightarrow> endpoint \<times> nat" where
  "Receiver parent heap addr =
     (\<lparr>errReady = ErrorString heap ''ready'', rctx = WithCancelCause parent, URL = addr\<rparr>,
      Suc heap)"

definition rcancel :: "error \<Rightarrow> endpoint \<Rightarrow> endpoint" where
  "rcancel e ep = ep\<lparr>rctx := cancel (Some e) (rctx ep)\<rparr>"

text \<open>
  The HTTP handler, on one request: \<open>Inl err\<close> is a failed \<open>io.ReadAll\<close>, \<open>Inr data\<close>
  the body read.
\<close>

definition handler :: "error + string \<Rightarrow> endpoint \<times> nat \<Rightarrow> endpoint \<times> nat" where
  "handler body s =
     (case s of (ep, heap) \<Rightarrow>
        (case body of
           Inl err \<Rightarrow> (rcancel err ep, heap)
         | Inr data \<Rightarrow>
             if length data \<noteq> 0 then (rcancel (ErrorString heap data) ep, Suc heap)
             else (rcancel (errReady ep) ep, heap)))"

definition closer :: "endpoint \<Rightarrow> endpoint" where
  "closer ep = rcancel ErrClosed ep"

text \<open>
  The returned \<open>receiver\<close>, called with the caller's context: \<open>None\<close> while it blocks,
  otherwise what it returns (\<open>None\<close> for nil) and the endpoint after its \<open>rcancel(err)\<close>.
\<close>

definition receiver :: "endpoint \<Rightarrow> ctx \<Rightarrow> bool \<Rightarrow> (error option \<times> endpoint) option" where
  "receiver ep caller first =
     (case select_cause first caller (rctx ep) of
        None \<Rightarrow> None
      | Some err \<Rightarrow>
          Some (if \<not> errors_Is err (errReady ep) then Some err else None, rcancel err ep))"

text \<open>\<open>Report\<close>: the body it posts, \<open>None\<close> when it sends nothing.\<close>

definition Report :: "string \<Rightarrow> error option \<Rightarrow> string option" where
  "Report addrURL status =
     (if addrURL = [] then None
      else Some (case status of None \<Rightarrow> [] | Some e \<Rightarrow> Error e))"

text \<open>
  What can happen to an endpoint once it exists: a request reaches the handler, the owner
  calls the closer, or the parent context is cancelled.
\<close>

datatype ep_event = Request "error + string" | Release | ParentDone error

fun ep_step :: "endpoint \<times> nat \<Rightarrow> ep_event \<Rightarrow> endpoint \<times> nat" where
  "ep_step s (Request body) = handler body s"
| "ep_step (ep, heap) Release = (closer ep, heap)"
| "ep_step (ep, heap) (ParentDone c) = (rcancel c ep, heap)"

text \<open>
  One use of an endpoint: it is opened under a live parent context, the events happen in
  order, and the waiter is then called with the caller's context.
\<close>

definition await :: "nat \<Rightarrow> string \<Rightarrow> ep_event list \<Rightarrow> ctx \<Rightarrow> bool \<Rightarrow> error option option" where
  "await heap addr evs caller first =
     map_option fst (receiver (fst (foldl ep_step (Receiver None heap addr) evs)) caller first)"

section \<open>Package monitor\<close>

text \<open>
  \<open>time.Duration\<close> is a signed 64-bit count of nanoseconds; \<open>os.Signal\<close> values are
  signal numbers, and a nil interface is \<open>None\<close>.
\<close>

type_synonym duration = "64 word"

definition Second :: duration where
  "Second = 1000000000"

definition Minute :: duration where
  "Minute = 60 * Second"

type_synonym signal = int

definition Interrupt :: signal where
  "Interrupt = 2"

record Options =
  ShutdownSignal :: "signal option"
  ShutdownTimeout :: duration
  MinBackoffTimeout :: duration
  MaxBackoffTimeout :: duration

definition setDefaults :: "Options \<Rightarrow> Options" where
  "setDefaults v0 =
     (let v1 = (if ShutdownSignal v0 = None then v0\<lparr>ShutdownSignal := Some Interrupt\<rparr> else v0);
          v2 = (if ShutdownTimeout v1 = 0 then v1\<lparr>ShutdownTimeout := 10 * Second\<rparr> else v1);
          v3 = (if MinBackoffTimeout v2 = 0 then v2\<lparr>MinBackoffTimeout := Second\<rparr> else v2);
          v4 = (if MaxBackoffTimeout v3 = 0 then v3\<lparr>MaxBackoffTimeout := Minute\<rparr> else v3)
      in v4)"

definition check :: "Options \<Rightarrow> nat \<Rightarrow> error option \<times> nat" where
  "check v heap =
     (if MaxBackoffTimeout v <s MinBackoffTimeout v
      then (Some (ErrorString heap ''max backoff timeout is smaller than min backoff timeout''),
            Suc heap)
      else (None, heap))"

text \<open>\<open>new(Options)\<close>: every field zero.\<close>

definition new_Options :: Options where
  "new_Options = \<lparr>ShutdownSignal = None, ShutdownTimeout = 0, MinBackoffTimeout = 0,
     MaxBackoffTimeout = 0\<rparr>"

text \<open>
  The builtin \<open>min\<close> on \<open>time.Duration\<close>, and the timeout of line 117,
  \<open>min(opts.MinBackoffTimeout<<time.Duration(i), opts.MaxBackoffTimeout)\<close>: the shift is
  the 64-bit one, which drops the bits shifted out and gives 0 from 64 on. The loop
  counter \<open>i\<close> is never negative, so the shift never panics; it is a natural number here
  (it cannot reach the end of \<open>int\<close>).
\<close>

definition min_duration :: "duration \<Rightarrow> duration \<Rightarrow> duration" where
  "min_duration a b = (if b <s a then b else a)"

definition backoff_timeout :: "Options \<Rightarrow> nat \<Rightarrow> duration" where
  "backoff_timeout opts i =
     min_duration (push_bit i (MinBackoffTimeout opts)) (MaxBackoffTimeout opts)"

text \<open>
  The process the code runs in: the entries \<open>name=value\<close> of the environment it was
  started with, as pairs, and \<open>os.Args\<close>. Of a name that occurs more than once Go keeps
  the first entry and drops the others, for \<open>os.Getenv\<close> and for \<open>os.Environ\<close> alike; the
  empty name is never found by \<open>os.Getenv\<close>.
\<close>

record process =
  environ :: "(string \<times> string) list"
  args :: "string list"

fun first_entries :: "string list \<Rightarrow> (string \<times> string) list \<Rightarrow> (string \<times> string) list" where
  "first_entries seen [] = []"
| "first_entries seen ((k, v) # es) =
     (if k \<in> set seen then first_entries seen es else (k, v) # first_entries (k # seen) es)"

definition Getenv :: "process \<Rightarrow> string \<Rightarrow> string" where
  "Getenv p k =
     (if length k = 0 then []
      else (case map_of (environ p) k of None \<Rightarrow> [] | Some v \<Rightarrow> v))"

definition Environ :: "process \<Rightarrow> string list" where
  "Environ p = map (\<lambda>(k, v). k @ ''='' @ v) (first_entries [] (environ p))"

text \<open>
  The \<open>exec.Cmd\<close> that one attempt builds, and what the monitor is seen to do: call
  \<open>cmd.Run\<close> in a new goroutine, enter the \<open>select\<close> of lines 120 to 123 with a backoff
  timeout, or log that the child is initialised. The deferred \<open>wg.Wait()\<close>, which holds
  the return back until those goroutines are done, is not among the actions.
\<close>

record cmd =
  Cmd_Args :: "string list"
  Cmd_Env :: "string list"
  Cmd_WaitDelay :: duration
  Cmd_Cancel :: "signal option"

datatype action = Run cmd | Sleep duration | Healthy

text \<open>
  What happens around one attempt, from outside the monitor's own goroutine: a request
  reaches the endpoint's handler, \<open>cmd.Run\<close> returns in the watching goroutine (\<open>None\<close>
  for a clean exit), or the outer context is cancelled with a cause.
\<close>

datatype event = Post "error + string" | ChildExit "error option" | OuterCancel error

text \<open>Lines 85 to 101: the command of one attempt, for the server address \<open>addrURL\<close>.\<close>

definition command :: "Options \<Rightarrow> string \<Rightarrow> process \<Rightarrow> string \<Rightarrow> string \<Rightarrow> cmd" where
  "command opts envKey p binPath addrURL =
     (let childArgs = binPath # tl (args p);
          childEnvItem = envKey @ ''='' @ addrURL
      in \<lparr>Cmd_Args = childArgs, Cmd_Env = Environ p @ [childEnvItem],
          Cmd_WaitDelay = ShutdownTimeout opts, Cmd_Cancel = ShutdownSignal opts\<rparr>)"

record attempt_state =
  octx :: ctx
  cctx :: ctx
  ept :: endpoint
  next_addr :: nat

fun apply_event :: "attempt_state \<Rightarrow> event \<Rightarrow> attempt_state" where
  "apply_event s (Post body) =
     (case handler body (ept s, next_addr s) of (ep', h') \<Rightarrow> s\<lparr>ept := ep', next_addr := h'\<rparr>)"
| "apply_event s (ChildExit r) =
     s\<lparr>cctx := cancel None (case r of None \<Rightarrow> cctx s | Some err \<Rightarrow> cancel (Some err) (cctx s))\<rparr>"
| "apply_event s (OuterCancel c) =
     (let o' = cancel (Some c) (octx s)
      in s\<lparr>octx := o', cctx := cancel o' (cctx s), ept := (ept s)\<lparr>rctx := cancel o' (rctx (ept s))\<rparr>\<rparr>)"

text \<open>
  The surroundings of one turn of the loop: what \<open>os.Executable\<close> returns, the address
  of the test server, a cancellation of the outer context before the loop's guard is
  read, the events up to the moment the waiter's \<open>select\<close> is decided and the choice made
  there when both contexts are done, a cancellation of the outer context during the
  backoff sleep (\<open>None\<close>: the timer fires first), and the events while the monitor waits
  on a healthy child (after the last of them nothing more happens).
\<close>

record attempt_env =
  executable :: "error + string"
  server_url :: string
  cancel_before :: "error option"
  wait_events :: "event list"
  take_caller :: bool
  cancel_asleep :: "error option"
  healthy_events :: "event list"

record loop_state =
  lctx :: ctx
  li :: nat
  lheap :: nat

definition cancel_opt :: "error option \<Rightarrow> ctx \<Rightarrow> ctx" where
  "cancel_opt c x = (case c of None \<Rightarrow> x | Some e \<Rightarrow> cancel (Some e) x)"

text \<open>
  The body of the loop from line 85 on (the function literal): the actions seen, and the
  loop's variables when the body returns; \<open>None\<close> when it never returns, because the
  waiter or the wait on the healthy child blocks for ever.
\<close>

definition attempt ::
  "Options \<Rightarrow> string \<Rightarrow> process \<Rightarrow> string \<Rightarrow> loop_state \<Rightarrow> attempt_env \<Rightarrow> action list \<times> loop_state option" where
  "attempt opts envKey p binPath st ev =
     (let childCtx = WithCancelCause (lctx st);
          (ep0, h1) = Receiver (lctx st) (lheap st) (server_url ev);
          c = command opts envKey p binPath (URL ep0);
          s0 = \<lparr>octx = lctx st, cctx = childCtx, ept = ep0, next_addr = h1\<rparr>;
          s1 = foldl apply_event s0 (wait_events ev)
      in case receiver (ept s1) (cctx s1) (take_caller ev) of
           None \<Rightarrow> ([Run c], None)
         | Some (Some err, ep1) \<Rightarrow>
             (let timeout = backoff_timeout opts (li st)
              in ([Run c, Sleep timeout],
                  Some \<lparr>lctx = cancel_opt (cancel_asleep ev) (octx s1), li = li st,
                        lheap = next_addr s1\<rparr>))
         | Some (None, ep1) \<Rightarrow>
             (let s2 = foldl apply_event (s1\<lparr>ept := ep1\<rparr>) (healthy_events ev)
              in if octx s2 = None \<and> cctx s2 = None then ([Run c, Healthy], None)
                 else ([Run c, Healthy],
                       Some \<lparr>lctx = octx s2, li = 0, lheap = next_addr s2\<rparr>)))"

text \<open>
  How a call ends: it returns an error (\<open>None\<close> for nil), it panics, it blocks for ever
  in the current attempt, or the list of surroundings given to the model is used up
  while the loop would go on.
\<close>

datatype outcome = Returned "error option" | Panicked | Blocked | Unfinished

text \<open>
  The \<open>for\<close> loop of lines 79 to 135, one element of the list for each turn: the guard
  \<open>ctx.Err() == nil\<close>, \<open>os.Executable\<close>, \<open>childArgs[0] = binPath\<close> (which panics on an
  empty \<open>os.Args\<close>), the body, and the post statement \<open>i++\<close>.
\<close>

fun monitor_loop ::
  "Options \<Rightarrow> string \<Rightarrow> process \<Rightarrow> loop_state \<Rightarrow> attempt_env list \<Rightarrow> action list \<times> outcome" where
  "monitor_loop opts envKey p st [] =
     ([], if lctx st = None then Unfinished else Returned (lctx st))"
| "monitor_loop opts envKey p st (ev # evs) =
     (let st0 = st\<lparr>lctx := cancel_opt (cancel_before ev) (lctx st)\<rparr>
      in if lctx st0 \<noteq> None then ([], Returned (lctx st0))
         else
           (case executable ev of
              Inl err \<Rightarrow>
                ([], Returned (Some (WrapError
                   (''failed to lookup current executable: '' @ Error err) err)))
            | Inr binPath \<Rightarrow>
                if args p = [] then ([], Panicked)
                else
                  (case attempt opts envKey p binPath st0 ev of
                     (acts, None) \<Rightarrow> (acts, Blocked)
                   | (acts, Some st1) \<Rightarrow>
                       (case monitor_loop opts envKey p (st1\<lparr>li := Suc (li st1)\<rparr>) evs of
                          (acts', r) \<Rightarrow> (acts @ acts', r)))))"

text \<open>
  \<open>SelfMonitor\<close>: what it returns, what it did, and the caller's \<open>Options\<close> value
  afterwards (\<open>None\<close> when the caller passed nil).
\<close>

record result =
  returned :: outcome
  actions :: "action list"
  caller_opts :: "Options option"

definition SelfMonitor ::
  "ctx \<Rightarrow> string \<Rightarrow> Options option \<Rightarrow> process \<Rightarrow> nat \<Rightarrow> attempt_env list \<Rightarrow> result" where
  "SelfMonitor ctx0 envKey opts p heap evs =
     (let v = setDefaults (case opts of None \<Rightarrow> new_Options | Some v0 \<Rightarrow> v0);
          after = map_option (\<lambda>_. v) opts
      in case check v heap of
           (Some err, h1) \<Rightarrow> \<lparr>returned = Returned (Some err), actions = [], caller_opts = after\<rparr>
         | (None, h1) \<Rightarrow>
             if length envKey = 0
             then \<lparr>returned = Returned (Some ErrInvalid), actions = [], caller_opts = after\<rparr>
             else if length (Getenv p envKey) \<noteq> 0
             then \<lparr>returned = Returned None, actions = [], caller_opts = after\<rparr>
             else
               (case monitor_loop v envKey p \<lparr>lctx = ctx0, li = 0, lheap = h1\<rparr> evs of
                  (acts, r) \<Rightarrow> \<lparr>returned = r, actions = acts, caller_opts = after\<rparr>))"

section \<open>Package daemon\<close>

text \<open>
  The \<open>os.ProcAttr\<close> handed to \<open>os.StartProcess\<close> (files by name), and what \<open>Daemonize\<close>
  is seen to do.
\<close>

record ProcAttr =
  Dir :: string
  Env :: "string list"
  Files :: "string list"

datatype daemon_action =
    StartProcess string "string list" ProcAttr
  | Kill
  | Setsid
  | DiscardLog

text \<open>
  What the system answers: \<open>os.Executable\<close>, opening \<open>/dev/null\<close>, \<open>os.StartProcess\<close>,
  the \<open>check\<close> callback (on the context that the goroutine waiting for the process
  cancels), and \<open>unix.Setsid\<close>.
\<close>

record daemon_env =
  lookup :: "error + string"
  open_null :: "error option"
  start :: "error option"
  ready :: "error option"
  setsid :: "error option"

definition daemonizeParent ::
  "process \<Rightarrow> string \<Rightarrow> string \<Rightarrow> bool \<Rightarrow> daemon_env \<Rightarrow> daemon_action list \<times> error option" where
  "daemonizeParent p envKey envValue has_check sys =
     (case lookup sys of
        Inl err \<Rightarrow> ([], Some (WrapError (''failed to lookup binary: '' @ Error err) err))
      | Inr binaryPath \<Rightarrow>
          (case open_null sys of
             Some err \<Rightarrow> ([], Some (WrapError (''failed to open /dev/null: '' @ Error err) err))
           | None \<Rightarrow>
               (let attr = \<lparr>Dir = ''/'',
                      Env = [''PATH='' @ Getenv p ''PATH'',
                             ''USER='' @ Getenv p ''USER'',
                             ''HOME='' @ Getenv p ''HOME'',
                             envKey @ ''='' @ envValue],
                      Files = [''/dev/null'', ''/dev/null'', ''/dev/null'']\<rparr>;
                    spawn = StartProcess binaryPath (args p) attr
                in case start sys of
                     Some err \<Rightarrow>
                       ([spawn], Some (WrapError (''failed to start process: '' @ Error err) err))
                   | None \<Rightarrow>
                       if has_check
                       then (case ready sys of
                               Some err \<Rightarrow> ([spawn, Kill], Some err)
                             | None \<Rightarrow> ([spawn], None))
                       else ([spawn], None))))"

definition daemonizeChild :: "string \<Rightarrow> daemon_env \<Rightarrow> daemon_action list \<times> error option" where
  "daemonizeChild envKey sys =
     (case setsid sys of
        Some err \<Rightarrow> ([Setsid], Some (WrapError (''could not set session id: '' @ Error err) err))
      | None \<Rightarrow> ([Setsid, DiscardLog], None))"

text \<open>\<open>Daemonize\<close>: what it did, and the pair \<open>(foreground, err)\<close> it returns.\<close>

definition Daemonize ::
  "string \<Rightarrow> string \<Rightarrow> bool \<Rightarrow> process \<Rightarrow> daemon_env \<Rightarrow> daemon_action list \<times> bool \<times> error option" where
  "Daemonize envKey envValue has_check p sys =
     (if length envKey = 0 \<or> length envValue = 0 then ([], True, Some ErrInvalid)
      else if length (Getenv p envKey) = 0
      then (case daemonizeParent p envKey envValue has_check sys of
              (acts, Some err) \<Rightarrow> (acts, True, Some err)
            | (acts, None) \<Rightarrow> (acts, True, None))
      else (case daemonizeChild envKey sys of
              (acts, Some err) \<Rightarrow> (acts, False, Some err)
            | (acts, None) \<Rightarrow> (acts, False, None)))"

section \<open>Predicates and scenarios used in the statements\<close>

text \<open>
  The sentinel of an endpoint lies below the allocator's next address, and the endpoint's
  context is not done with the sentinel as its cause.
\<close>

definition fresh_sentinel :: "endpoint \<times> nat \<Rightarrow> bool" where
  "fresh_sentinel s = (case errReady (fst s) of ErrorString a r \<Rightarrow> a < snd s | _ \<Rightarrow> False)"

definition not_ready :: "endpoint \<times> nat \<Rightarrow> bool" where
  "not_ready s =
     (case rctx (fst s) of None \<Rightarrow> True | Some x \<Rightarrow> \<not> errors_Is x (errReady (fst s)))"

text \<open>
  A cause handed in from outside that \<open>errors.Is\<close> does not take for the sentinel; a
  context, a request to the endpoint and an event of an attempt that bring no other.
\<close>

definition ctx_unlike :: "error \<Rightarrow> ctx \<Rightarrow> bool" where
  "ctx_unlike sentinel c = (case c of None \<Rightarrow> True | Some x \<Rightarrow> \<not> errors_Is x sentinel)"

fun ev_unlike :: "error \<Rightarrow> ep_event \<Rightarrow> bool" where
  "ev_unlike sentinel (Request (Inl e)) = (\<not> errors_Is e sentinel)"
| "ev_unlike sentinel (Request (Inr d)) = True"
| "ev_unlike sentinel Release = True"
| "ev_unlike sentinel (ParentDone e) = (\<not> errors_Is e sentinel)"

fun event_unlike :: "error \<Rightarrow> event \<Rightarrow> bool" where
  "event_unlike sentinel (Post (Inl e)) = (\<not> errors_Is e sentinel)"
| "event_unlike sentinel (Post (Inr d)) = True"
| "event_unlike sentinel (ChildExit None) = True"
| "event_unlike sentinel (ChildExit (Some e)) = (\<not> errors_Is e sentinel)"
| "event_unlike sentinel (OuterCancel c) = (\<not> errors_Is c sentinel)"


text \<open>The outer context after a list of events: the first cancellation counts.\<close>

fun outer_after :: "ctx \<Rightarrow> event list \<Rightarrow> ctx" where
  "outer_after x [] = x"
| "outer_after x (OuterCancel c # es) = outer_after (cancel (Some c) x) es"
| "outer_after x (Post body # es) = outer_after x es"
| "outer_after x (ChildExit r # es) = outer_after x es"

fun is_Post :: "event \<Rightarrow> bool" where
  "is_Post (Post body) = True"
| "is_Post e = False"

fun no_report :: "event \<Rightarrow> bool" where
  "no_report (Post body) = False"
| "no_report e = True"

fun is_ChildExit :: "event \<Rightarrow> bool" where
  "is_ChildExit (ChildExit r) = True"
| "is_ChildExit e = False"

fun is_Run :: "action \<Rightarrow> bool" where
  "is_Run (Run c) = True"
| "is_Run a = False"

text \<open>The options that \<open>SelfMonitor\<close> works with, after lines 60 to 63.\<close>

definition effective :: "Options option \<Rightarrow> Options" where
  "effective opts = setDefaults (case opts of None \<Rightarrow> new_Options | Some v0 \<Rightarrow> v0)"

text \<open>The timeouts of the backoff sleeps among the actions, in order.\<close>

fun sleeps :: "action list \<Rightarrow> duration list" where
  "sleeps [] = []"
| "sleeps (Sleep d # as) = d # sleeps as"
| "sleeps (a # as) = sleeps as"

text \<open>
  A process with a small environment, and four kinds of attempt: the child reports ready
  and exits later; the child reports ready and nothing happens any more; the child dies
  with exit status 1 before it reports; the child exits cleanly before it reports.
\<close>

definition example_process :: process where
  "example_process =
     \<lparr>environ = [(''PATH'', ''/bin''), (''LANG'', ''C'')], args = [''app'', ''-self-monitor'']\<rparr>"

definition child_process :: process where
  "child_process =
     \<lparr>environ = [(''PATH'', ''/bin''), (''KEY'', ''http://127.0.0.1:4000'')],
      args = [''app'', ''-self-monitor'']\<rparr>"

definition ready_then_exit :: attempt_env where
  "ready_then_exit =
     \<lparr>executable = Inr ''/bin/app'', server_url = ''http://127.0.0.1:4000'',
      cancel_before = None, wait_events = [Post (Inr [])], take_caller = False,
      cancel_asleep = None, healthy_events = [ChildExit None]\<rparr>"

definition ready_for_ever :: attempt_env where
  "ready_for_ever =
     \<lparr>executable = Inr ''/bin/app'', server_url = ''http://127.0.0.1:4000'',
      cancel_before = None, wait_events = [Post (Inr [])], take_caller = False,
      cancel_asleep = None, healthy_events = []\<rparr>"

definition crash :: attempt_env where
  "crash =
     \<lparr>executable = Inr ''/bin/app'', server_url = ''http://127.0.0.1:4000'',
      cancel_before = None, wait_events = [ChildExit (Some (SysError ''exit status 1''))],
      take_caller = False, cancel_asleep = None, healthy_events = []\<rparr>"

definition clean_exit :: attempt_env where
  "clean_exit =
     \<lparr>executable = Inr ''/bin/app'', server_url = ''http://127.0.0.1:4000'',
      cancel_before = None, wait_events = [ChildExit None],
      take_caller = False, cancel_asleep = None, healthy_events = []\<rparr>"

text \<open>
  A cancellation cause whose \<open>Is\<close> method answers true for every target, and an attempt
  in which the outer context is cancelled with it, after the loop's guard, and the child
  then exits without having reported.
\<close>

definition matching_cause :: error where
  "matching_cause = IsError ''shutting down'' AnyTarget"

definition cancelled_then_exit :: attempt_env where
  "cancelled_then_exit =
     \<lparr>executable = Inr ''/bin/app'', server_url = ''http://127.0.0.1:4000'',
      cancel_before = None,
      wait_events = [OuterCancel matching_cause, ChildExit (Some Canceled)],
      take_caller = False, cancel_asleep = None, healthy_events = []\<rparr>"

definition inconsistent_options :: Options where
  "inconsistent_options =
     \<lparr>ShutdownSignal = None, ShutdownTimeout = 0, MinBackoffTimeout = 2 * Second,
      MaxBackoffTimeout = Second\<rparr>"

definition daemon_ok :: daemon_env where
  "daemon_ok = \<lparr>lookup = Inr ''/bin/app'', open_null = None, start = None, ready = None,
     setsid = None\<rparr>"

section \<open>Basic facts\<close>

lemma cancel_done: "cancel c (Some x) = Some x"
  by (simp add: cancel_def)

lemma cancel_not_live: "cancel c x \<noteq> None"
  by (simp add: cancel_def split: option.splits)


lemma select_cases: "select_cause first a b = Some err \<Longrightarrow> a = Some err \<or> b = Some err"
  by (auto simp: select_cause_def split: option.splits if_splits)

lemma select_second: "select_cause first None (Some x) = Some x"
  by (simp add: select_cause_def)

lemma select_unlike:
  assumes "ctx_unlike s a" and "ctx_unlike s b" and "a \<noteq> None"
  shows "\<exists>err. select_cause first a b = Some err \<and> \<not> errors_Is err s"
  using assms by (auto simp: select_cause_def ctx_unlike_def split: option.splits)

subsection \<open>The endpoint\<close>

lemma ep_step_errReady: "errReady (fst (ep_step s e)) = errReady (fst s)"
  by (cases s; cases e) (auto simp: handler_def rcancel_def closer_def split: sum.splits)

lemma ep_step_done: "rctx (fst s) = Some x \<Longrightarrow> rctx (fst (ep_step s e)) = Some x"
  by (cases s; cases e)
    (auto simp: handler_def rcancel_def closer_def cancel_done split: sum.splits)

lemma ep_run_errReady: "errReady (fst (foldl ep_step s evs)) = errReady (fst s)"
  by (induction evs arbitrary: s) (simp_all add: ep_step_errReady)

lemma ep_run_done: "rctx (fst s) = Some x \<Longrightarrow> rctx (fst (foldl ep_step s evs)) = Some x"
  by (induction evs arbitrary: s) (simp_all add: ep_step_done)

text \<open>The first event that cancels \<open>rctx\<close> decides what the waiter reads from it.\<close>

lemma await_first:
  assumes "rctx (fst (ep_step (Receiver None heap addr) e)) = Some x"
  shows "await heap addr (e # evs) caller first =
     (case select_cause first caller (Some x) of
        None \<Rightarrow> None
      | Some err \<Rightarrow>
          Some (if \<not> errors_Is err (ErrorString heap ''ready'') then Some err else None))"
proof -
  let ?s = "foldl ep_step (ep_step (Receiver None heap addr) e) evs"
  have r: "rctx (fst ?s) = Some x"
    using assms by (rule ep_run_done)
  have q: "errReady (fst ?s) = ErrorString heap ''ready''"
    by (simp add: ep_run_errReady ep_step_errReady Receiver_def)
  show ?thesis
    by (simp add: await_def receiver_def r q split: option.splits)
qed

lemma first_failed:
  "M \<noteq> [] \<Longrightarrow>
   rctx (fst (ep_step (Receiver None heap addr) (Request (Inr M)))) =
     Some (ErrorString (Suc heap) M)"
  by (simp add: Receiver_def handler_def rcancel_def cancel_def WithCancelCause_def)



text \<open>
  No event but a request with an empty body makes the sentinel the cause of \<open>rctx\<close>:
  the handler's own errors are allocated after the sentinel, and the others are not
  taken for it.
\<close>

lemma ep_step_keeps:
  assumes "fresh_sentinel s" "not_ready s" "ev_unlike (errReady (fst s)) e"
    "e \<noteq> Request (Inr [])"
  shows "fresh_sentinel (ep_step s e) \<and> not_ready (ep_step s e)"
proof (cases s)
  case (Pair ep heap)
  obtain a r where a: "errReady ep = ErrorString a r" "a < heap"
    using assms(1) Pair by (auto simp: fresh_sentinel_def split: error.splits)
  show ?thesis
  proof (cases e)
    case (Request body)
    show ?thesis
    proof (cases body)
      case (Inl err)
      then have "\<not> errors_Is err (ErrorString a r)" using assms(3) Request Pair a by simp
      then show ?thesis
        using assms(2) a Pair Request Inl
        by (auto simp: fresh_sentinel_def not_ready_def handler_def rcancel_def cancel_def
            split: option.splits)
    next
      case (Inr data)
      then have "data \<noteq> []" using assms(4) Request by simp
      then show ?thesis
        using assms(2) a Pair Request Inr
        by (auto simp: fresh_sentinel_def not_ready_def handler_def rcancel_def cancel_def
            split: option.splits)
    qed
  next
    case Release
    then show ?thesis
      using assms(2) a Pair
      by (auto simp: fresh_sentinel_def not_ready_def closer_def rcancel_def cancel_def
          split: option.splits)
  next
    case (ParentDone c)
    then have "\<not> errors_Is c (ErrorString a r)" using assms(3) Pair a by simp
    then show ?thesis
      using assms(2) a Pair ParentDone
      by (auto simp: fresh_sentinel_def not_ready_def rcancel_def cancel_def
          split: option.splits)
  qed
qed

lemma ep_run_keeps:
  "fresh_sentinel s \<Longrightarrow> not_ready s \<Longrightarrow> list_all (ev_unlike (errReady (fst s))) evs \<Longrightarrow>
   Request (Inr []) \<notin> set evs \<Longrightarrow> not_ready (foldl ep_step s evs)"
proof (induction evs arbitrary: s)
  case Nil
  then show ?case by simp
next
  case (Cons e evs)
  have "fresh_sentinel (ep_step s e) \<and> not_ready (ep_step s e)"
    using Cons.prems by (intro ep_step_keeps) auto
  then show ?case using Cons by (simp add: ep_step_errReady)
qed

lemma Receiver_fresh:
  "fresh_sentinel (Receiver None heap addr) \<and> not_ready (Receiver None heap addr)"
  by (simp add: fresh_sentinel_def not_ready_def Receiver_def WithCancelCause_def)

lemma nil_needs_empty_report:
  assumes "list_all (ev_unlike (ErrorString heap ''ready'')) evs"
    and "ctx_unlike (ErrorString heap ''ready'') caller"
    and "await heap addr evs caller first = Some None"
  shows "Request (Inr []) \<in> set evs"
proof (rule ccontr)
  assume no: "Request (Inr []) \<notin> set evs"
  let ?s = "foldl ep_step (Receiver None heap addr) evs"
  have "errReady (fst (Receiver None heap addr)) = ErrorString heap ''ready''"
    by (simp add: Receiver_def)
  then have nr: "not_ready ?s"
    using Receiver_fresh assms(1) no by (intro ep_run_keeps) auto
  have q: "errReady (fst ?s) = ErrorString heap ''ready''"
    by (simp add: ep_run_errReady Receiver_def)
  from assms(3) obtain err where e: "select_cause first caller (rctx (fst ?s)) = Some err"
      "errors_Is err (ErrorString heap ''ready'')"
    by (auto simp: await_def receiver_def q split: option.splits if_splits)
  from e(1) have "caller = Some err \<or> rctx (fst ?s) = Some err"
    by (rule select_cases)
  then show False
  proof
    assume "caller = Some err"
    then show False using assms(2) e(2) by (simp add: ctx_unlike_def)
  next
    assume "rctx (fst ?s) = Some err"
    then show False using nr e(2) q by (simp add: not_ready_def)
  qed
qed

subsection \<open>Events of one attempt\<close>

lemma apply_Post_ctxs:
  "is_Post e \<Longrightarrow> octx (apply_event s e) = octx s \<and> cctx (apply_event s e) = cctx s"
  by (cases e) (auto split: prod.splits)

lemma run_Posts_ctxs:
  "list_all is_Post es \<Longrightarrow>
   octx (foldl apply_event s es) = octx s \<and> cctx (foldl apply_event s es) = cctx s"
  by (induction es arbitrary: s) (simp_all add: apply_Post_ctxs)

lemma apply_quiet_sentinel:
  "no_report e \<Longrightarrow> errReady (ept (apply_event s e)) = errReady (ept s)"
  by (cases e) (auto simp: Let_def)

lemma apply_quiet_next: "no_report e \<Longrightarrow> next_addr (apply_event s e) = next_addr s"
  by (cases e) (auto simp: Let_def)

lemma run_quiet_next:
  "list_all no_report es \<Longrightarrow> next_addr (foldl apply_event s es) = next_addr s"
  by (induction es arbitrary: s) (simp_all add: apply_quiet_next)

lemma apply_outer: "octx (foldl apply_event s [e]) = outer_after (octx s) [e]"
  by (cases e) (auto simp: Let_def split: prod.splits)

lemma run_outer: "octx (foldl apply_event s es) = outer_after (octx s) es"
proof (induction es arbitrary: s)
  case Nil
  then show ?case by simp
next
  case (Cons e es)
  have "octx (apply_event s e) = outer_after (octx s) [e]"
    using apply_outer [of s e] by simp
  then show ?case
    using Cons [of "apply_event s e"] by (cases e) simp_all
qed

lemma apply_quiet_unlike:
  assumes "no_report e" and "event_unlike t e"
    and "ctx_unlike t (rctx (ept s))" and "ctx_unlike t (cctx s)" and "ctx_unlike t (octx s)"
    and "\<not> errors_Is Canceled t"
  shows "ctx_unlike t (rctx (ept (apply_event s e))) \<and> ctx_unlike t (cctx (apply_event s e))
     \<and> ctx_unlike t (octx (apply_event s e))"
proof (cases e)
  case (Post body)
  then show ?thesis using assms(1) by simp
next
  case (ChildExit r)
  then show ?thesis
    using assms by (cases r) (auto simp: ctx_unlike_def cancel_def split: option.splits)
next
  case (OuterCancel c)
  then show ?thesis
    using assms by (auto simp: ctx_unlike_def cancel_def Let_def split: option.splits)
qed

lemma apply_child_done: "cctx s \<noteq> None \<Longrightarrow> cctx (apply_event s e) \<noteq> None"
  by (cases e) (auto simp: cancel_def Let_def split: option.splits prod.splits)

lemma apply_ChildExit_done: "is_ChildExit e \<Longrightarrow> cctx (apply_event s e) \<noteq> None"
  by (cases e) (auto simp: cancel_not_live)

lemma run_child_done: "cctx s \<noteq> None \<Longrightarrow> cctx (foldl apply_event s es) \<noteq> None"
proof (induction es arbitrary: s)
  case Nil
  then show ?case by simp
next
  case (Cons e es)
  from Cons.prems have "cctx (apply_event s e) \<noteq> None" by (rule apply_child_done)
  then have "cctx (foldl apply_event (apply_event s e) es) \<noteq> None" by (rule Cons.IH)
  then show ?case by simp
qed

lemma run_ChildExit_done:
  "list_ex is_ChildExit es \<Longrightarrow> cctx (foldl apply_event s es) \<noteq> None"
proof (induction es arbitrary: s)
  case Nil
  then show ?case by simp
next
  case (Cons e es)
  show ?case
  proof (cases "is_ChildExit e")
    case True
    then have "cctx (apply_event s e) \<noteq> None" by (rule apply_ChildExit_done)
    then show ?thesis by (simp add: run_child_done)
  next
    case False
    then show ?thesis using Cons by simp
  qed
qed

lemma run_quiet:
  assumes "list_all no_report es" and "list_all (event_unlike t) es"
    and "ctx_unlike t (rctx (ept s))" and "ctx_unlike t (cctx s)" and "ctx_unlike t (octx s)"
    and "\<not> errors_Is Canceled t"
  shows "errReady (ept (foldl apply_event s es)) = errReady (ept s)
     \<and> ctx_unlike t (rctx (ept (foldl apply_event s es)))
     \<and> ctx_unlike t (cctx (foldl apply_event s es))"
  using assms
proof (induction es arbitrary: s)
  case Nil
  then show ?case by simp
next
  case (Cons e es)
  have "ctx_unlike t (rctx (ept (apply_event s e))) \<and> ctx_unlike t (cctx (apply_event s e))
     \<and> ctx_unlike t (octx (apply_event s e))"
    using Cons.prems by (intro apply_quiet_unlike) simp_all
  then show ?case
    using Cons by (simp add: apply_quiet_sentinel)
qed

subsection \<open>One attempt and the loop\<close>

text \<open>What an attempt is seen to do, in its three forms.\<close>

lemma attempt_actions:
  "fst (attempt opts envKey p bin st ev) = [Run (command opts envKey p bin (server_url ev))]
   \<or> fst (attempt opts envKey p bin st ev) =
       [Run (command opts envKey p bin (server_url ev)), Sleep (backoff_timeout opts (li st))]
   \<or> fst (attempt opts envKey p bin st ev) =
       [Run (command opts envKey p bin (server_url ev)), Healthy]"
  by (simp add: attempt_def Receiver_def Let_def split: option.splits prod.splits)

text \<open>
  The body leaves the counter at 0 after a success and as it was after a failure; the
  post statement then adds one in both cases.
\<close>

lemma index_after_success:
  "attempt opts envKey p bin st ev = (acts, Some st') \<Longrightarrow> Healthy \<in> set acts \<Longrightarrow> li st' = 0"
  by (auto simp: attempt_def Receiver_def Let_def split: option.splits prod.splits if_splits)

lemma index_after_failure:
  "attempt opts envKey p bin st ev = (acts, Some st') \<Longrightarrow> Healthy \<notin> set acts \<Longrightarrow>
   li st' = li st"
  by (auto simp: attempt_def Receiver_def Let_def split: option.splits prod.splits if_splits)

lemma attempt_healthy_quiet:
  assumes "lctx st = None" and "Healthy \<in> set (fst (attempt opts envKey p bin st ev))"
    and "list_all is_Post (wait_events ev @ healthy_events ev)"
  shows "attempt opts envKey p bin st ev =
           ([Run (command opts envKey p bin (server_url ev)), Healthy], None)"
proof -
  have w: "list_all is_Post (wait_events ev)" and h: "list_all is_Post (healthy_events ev)"
    using assms(3) by simp_all
  show ?thesis
    using assms(1,2)
    by (auto simp: attempt_def Receiver_def Let_def WithCancelCause_def
        run_Posts_ctxs [OF w] run_Posts_ctxs [OF h]
        split: option.splits prod.splits)
qed

text \<open>
  The child has exited and no report has come when the waiter's \<open>select\<close> is decided: the
  body takes the failure branch.
\<close>

lemma attempt_exit_before_report:
  assumes "lctx st = None"
    and "list_all no_report (wait_events ev)"
    and "list_ex is_ChildExit (wait_events ev)"
    and "list_all (event_unlike (ErrorString (lheap st) ''ready'')) (wait_events ev)"
  shows "attempt opts envKey p bin st ev =
           ([Run (command opts envKey p bin (server_url ev)),
             Sleep (backoff_timeout opts (li st))],
            Some \<lparr>lctx = cancel_opt (cancel_asleep ev) (outer_after None (wait_events ev)),
                  li = li st, lheap = Suc (lheap st)\<rparr>)"
proof -
  define s0 where "s0 = \<lparr>octx = None, cctx = None,
      ept = \<lparr>errReady = ErrorString (lheap st) ''ready'', rctx = None, URL = server_url ev\<rparr>,
      next_addr = Suc (lheap st)\<rparr>"
  define s1 where "s1 = foldl apply_event s0 (wait_events ev)"
  have q: "errReady (ept s1) = ErrorString (lheap st) ''ready''
      \<and> ctx_unlike (ErrorString (lheap st) ''ready'') (rctx (ept s1))
      \<and> ctx_unlike (ErrorString (lheap st) ''ready'') (cctx s1)"
    unfolding s1_def
    using assms(2,4) run_quiet [of "wait_events ev" "ErrorString (lheap st) ''ready''" s0]
    by (simp add: s0_def ctx_unlike_def)
  have d: "cctx s1 \<noteq> None"
    unfolding s1_def using assms(3) by (rule run_ChildExit_done)
  obtain err where e: "select_cause (take_caller ev) (cctx s1) (rctx (ept s1)) = Some err"
      "\<not> errors_Is err (ErrorString (lheap st) ''ready'')"
    using select_unlike [of "ErrorString (lheap st) ''ready''" "cctx s1" "rctx (ept s1)"] q d
    by blast
  have r: "receiver (ept s1) (cctx s1) (take_caller ev) = Some (Some err, rcancel err (ept s1))"
    using e q by (simp add: receiver_def)
  have o: "octx s1 = outer_after None (wait_events ev)"
    unfolding s1_def using run_outer [of s0 "wait_events ev"] by (simp add: s0_def)
  have n: "next_addr s1 = Suc (lheap st)"
    unfolding s1_def using run_quiet_next [OF assms(2), of s0] by (simp add: s0_def)
  show ?thesis
    using assms(1) r o n
    by (simp add: attempt_def Receiver_def WithCancelCause_def Let_def
        s1_def [symmetric] s0_def [symmetric])
qed

lemma attempt_crash:
  assumes "lctx st = None"
  shows "attempt opts envKey p bin st crash =
     ([Run (command opts envKey p bin (server_url crash)), Sleep (backoff_timeout opts (li st))],
      Some \<lparr>lctx = None, li = li st, lheap = Suc (lheap st)\<rparr>)"
  using assms
  by (simp add: attempt_def Receiver_def WithCancelCause_def Let_def crash_def cancel_def
      receiver_def select_cause_def cancel_opt_def rcancel_def)

text \<open>A run of failures from index \<open>i\<close> on sleeps for the timeouts of \<open>i, i + 1, \<dots>\<close>.\<close>

lemma crashes_sleep:
  assumes "args p \<noteq> []"
  shows "lctx st = None \<Longrightarrow>
    sleeps (fst (monitor_loop opts envKey p st (replicate n crash))) =
      map (backoff_timeout opts) [li st ..< li st + n]"
proof (induction n arbitrary: st)
  case 0
  then show ?case by simp
next
  case (Suc n)
  let ?st1 = "\<lparr>lctx = None, li = Suc (li st), lheap = Suc (lheap st)\<rparr>"
  have st: "st\<lparr>lctx := None\<rparr> = st" using Suc.prems by simp
  have ih: "sleeps (fst (monitor_loop opts envKey p ?st1 (replicate n crash))) =
      map (backoff_timeout opts) [Suc (li st) ..< Suc (li st) + n]"
    using Suc.IH [of ?st1] by simp
  have c: "cancel_before crash = None" "executable crash = Inr ''/bin/app''"
    by (simp_all add: crash_def)
  have "sleeps (fst (monitor_loop opts envKey p st (crash # replicate n crash))) =
      backoff_timeout opts (li st) #
        sleeps (fst (monitor_loop opts envKey p ?st1 (replicate n crash)))"
    using assms Suc.prems
    by (simp add: c cancel_opt_def st attempt_crash split: prod.splits)
  then show ?case
    using ih by (simp add: upt_rec [of "li st"])
qed

text \<open>
  After an attempt that saw the child ready and has returned, a failure in the next turn
  sleeps for the timeout of index 1.
\<close>

lemma crash_after_success_sleeps:
  assumes "args p \<noteq> []"
    and "attempt opts envKey p bin st ev = (acts, Some st1)" and "Healthy \<in> set acts"
    and "lctx st1 = None"
  shows "sleeps (fst (monitor_loop opts envKey p (st1\<lparr>li := Suc (li st1)\<rparr>) [crash])) =
           [backoff_timeout opts 1]"
proof -
  have "li st1 = 0"
    using assms(2,3) by (rule index_after_success)
  then show ?thesis
    using crashes_sleep [OF assms(1), of "st1\<lparr>li := Suc (li st1)\<rparr>" opts envKey 1] assms(4)
    by simp
qed

lemma SelfMonitor_crashes:
  "sleeps (actions (SelfMonitor None ''KEY'' None example_process 0 (replicate n crash))) =
     map (backoff_timeout (setDefaults new_Options)) [0 ..< n]"
proof -
  have a: "args example_process \<noteq> []" by (simp add: example_process_def)
  have b: "check (setDefaults new_Options) 0 = (None, 0)"
    by (simp add: check_def setDefaults_def new_Options_def Let_def Second_def Minute_def
        word_sless_alt)
  have c: "Getenv example_process ''KEY'' = []"
    by (simp add: Getenv_def example_process_def)
  show ?thesis
    using crashes_sleep [OF a, of "\<lparr>lctx = None, li = 0, lheap = 0\<rparr>"
        "setDefaults new_Options" "''KEY''" n]
    by (simp add: SelfMonitor_def b c case_prod_beta Let_def)
qed

subsection \<open>The timeout where the shift does not overflow\<close>

lemma sint_push_bit_in_range:
  fixes w :: "64 word"
  assumes "- (2 ^ 63) \<le> sint w * 2 ^ i" and "sint w * 2 ^ i < 2 ^ 63"
  shows "sint (push_bit i w) = sint w * 2 ^ i"
proof -
  have "word_of_int (sint w) = w"
    by (simp add: scast_eq [symmetric])
  then have "push_bit i w = word_of_int (push_bit i (sint w))"
    by (simp add: push_bit_eq_mult)
  then have "sint (push_bit i w) = signed_take_bit 63 (push_bit i (sint w))"
    by (simp add: sint_sbintrunc')
  also have "\<dots> = push_bit i (sint w)"
    using assms by (intro signed_take_bit_int_eq_self) (simp_all add: push_bit_eq_mult)
  finally show ?thesis by (simp add: push_bit_eq_mult)
qed

lemma backoff_timeout_in_range:
  assumes "- (2 ^ 63) \<le> sint (MinBackoffTimeout v) * 2 ^ i"
    and "sint (MinBackoffTimeout v) * 2 ^ i < 2 ^ 63"
  shows "sint (backoff_timeout v i) =
           min (sint (MinBackoffTimeout v) * 2 ^ i) (sint (MaxBackoffTimeout v))"
  using sint_push_bit_in_range [OF assms]
  by (simp add: backoff_timeout_def min_duration_def word_sless_alt min_def)

lemma default_options_pass:
  "\<not> MaxBackoffTimeout (effective None) <s MinBackoffTimeout (effective None)"
  by (simp add: effective_def new_Options_def setDefaults_def Let_def Second_def Minute_def
      word_sless_alt)

lemma inconsistent_options_fail:
  "MaxBackoffTimeout (effective (Some inconsistent_options))
     <s MinBackoffTimeout (effective (Some inconsistent_options))"
  by (simp add: effective_def inconsistent_options_def setDefaults_def Let_def Second_def
      word_sless_alt)

section \<open>The claims\<close>

subsection \<open>The supervision loop\<close>

text \<open>
  C1. The claim: after an attempt with a successful readiness report the attempt index is
  reset to 0, so that the next failed attempt computes its delay with index 0 (the
  minimum backoff). The body does set \<open>i = 0\<close> (\<open>index_after_success\<close>), but the post
  statement \<open>i++\<close> runs before the next attempt (\<open>crash_after_success_sleeps\<close>): with the
  default options, a child that reports ready and exits, followed by a child that dies
  before reporting, makes the monitor sleep for the timeout of index 1, two seconds,
  while the first failure of a run sleeps for one second.
\<close>

theorem first_failure_after_success_uses_index_one:
  "sleeps (actions (SelfMonitor None ''KEY'' None example_process 0 [ready_then_exit, crash])) =
     [backoff_timeout (setDefaults new_Options) 1]
   \<and> backoff_timeout (setDefaults new_Options) 1 = 2 * Second
   \<and> sleeps (actions (SelfMonitor None ''KEY'' None example_process 0 [crash])) =
     [MinBackoffTimeout (setDefaults new_Options)]
   \<and> MinBackoffTimeout (setDefaults new_Options) = Second
   \<and> 2 * Second \<noteq> Second"
  by code_simp

text \<open>
  C2. The claim: for every attempt index \<open>i\<close> and all valid options the delay slept is
  \<open>min(minBackoff * 2^i, maxBackoff)\<close>. The shift is a 64-bit one: with the default
  options the thirty-fifth failure in a row (index 34) sleeps for a negative timeout,
  where the formula gives one minute. (\<open>backoff_timeout_in_range\<close> has the formula for
  the indices at which the shift does not overflow.)
\<close>

theorem backoff_overflows_at_index_34:
  "sleeps (actions (SelfMonitor None ''KEY'' None example_process 0 (replicate 35 crash))) ! 34 =
     backoff_timeout (setDefaults new_Options) 34
   \<and> sint (backoff_timeout (setDefaults new_Options) 34) = - 1266874889709551616
   \<and> min (sint (MinBackoffTimeout (setDefaults new_Options)) * 2 ^ 34)
         (sint (MaxBackoffTimeout (setDefaults new_Options))) = 60000000000"
proof (intro conjI)
  show "sleeps (actions (SelfMonitor None ''KEY'' None example_process 0 (replicate 35 crash))) ! 34 =
     backoff_timeout (setDefaults new_Options) 34"
    by (simp add: SelfMonitor_crashes)
  show "sint (backoff_timeout (setDefaults new_Options) 34) = - 1266874889709551616"
    by (simp add: backoff_timeout_def min_duration_def setDefaults_def new_Options_def Let_def
        Second_def Minute_def word_sless_alt)
  show "min (sint (MinBackoffTimeout (setDefaults new_Options)) * 2 ^ 34)
         (sint (MaxBackoffTimeout (setDefaults new_Options))) = 60000000000"
    by (simp add: setDefaults_def new_Options_def Let_def Second_def Minute_def)
qed

subsection \<open>The readiness waiter\<close>




subsection \<open>Healthy and failed attempts\<close>

text \<open>
  C4. Take a turn of the loop whose attempt sees the child report ready. As long as
  neither the child's context nor the outer context is cancelled, that is, while nothing
  but requests to the endpoint happens, the loop stays in this attempt: it has run one
  child and runs no other, whatever the surroundings of later turns would be.
\<close>

theorem healthy_child_not_restarted:
  assumes "cancel_before ev = None" and "lctx st = None" and "executable ev = Inr bin"
    and "args p \<noteq> []"
    and "Healthy \<in> set (fst (attempt opts envKey p bin st ev))"
    and "list_all is_Post (wait_events ev @ healthy_events ev)"
  shows "monitor_loop opts envKey p st (ev # evs) =
           ([Run (command opts envKey p bin (server_url ev)), Healthy], Blocked)
         \<and> length (filter is_Run (fst (monitor_loop opts envKey p st (ev # evs)))) = 1"
proof -
  have st: "st\<lparr>lctx := None\<rparr> = st" using assms(2) by simp
  have "attempt opts envKey p bin st ev =
      ([Run (command opts envKey p bin (server_url ev)), Healthy], None)"
    using assms(2,5,6) by (rule attempt_healthy_quiet)
  then have "monitor_loop opts envKey p st (ev # evs) =
           ([Run (command opts envKey p bin (server_url ev)), Healthy], Blocked)"
    using assms(1-4) by (simp add: cancel_opt_def st)
  then show ?thesis by simp
qed

theorem healthy_child_not_restarted_witness:
  "Healthy \<in> set (fst (attempt (setDefaults new_Options) ''KEY'' example_process ''/bin/app''
       \<lparr>lctx = None, li = 3, lheap = 0\<rparr> ready_for_ever))
   \<and> monitor_loop (setDefaults new_Options) ''KEY'' example_process
       \<lparr>lctx = None, li = 3, lheap = 0\<rparr> [ready_for_ever, crash, crash] =
     ([Run (command (setDefaults new_Options) ''KEY'' example_process ''/bin/app''
          ''http://127.0.0.1:4000''), Healthy], Blocked)"
proof -
  have a: "cancel_before ready_for_ever = None" by (simp add: ready_for_ever_def)
  have b: "lctx \<lparr>lctx = None, li = 3, lheap = 0\<rparr> = None" by simp
  have c: "executable ready_for_ever = Inr ''/bin/app''" by (simp add: ready_for_ever_def)
  have d: "args example_process \<noteq> []" by (simp add: example_process_def)
  have e: "Healthy \<in> set (fst (attempt (setDefaults new_Options) ''KEY'' example_process
       ''/bin/app'' \<lparr>lctx = None, li = 3, lheap = 0\<rparr> ready_for_ever))"
    by (simp add: attempt_def Receiver_def WithCancelCause_def Let_def ready_for_ever_def
        handler_def receiver_def select_cause_def rcancel_def cancel_def)
  have f: "list_all is_Post (wait_events ready_for_ever @ healthy_events ready_for_ever)"
    by (simp add: ready_for_ever_def)
  have g: "server_url ready_for_ever = ''http://127.0.0.1:4000''"
    by (simp add: ready_for_ever_def)
  show ?thesis
    using healthy_child_not_restarted [OF a b c d e f, of "[crash, crash]"] e g by simp
qed

text \<open>
  C5, as amended. Take a turn of the loop, begun under a live outer context, in which the
  child has exited (cleanly or not) and no report has reached the endpoint when the
  waiter's \<open>select\<close> is decided, and in which no cause handed in meanwhile (the error of
  \<open>cmd.Run\<close>, the cause of an outer cancellation) is taken for the sentinel by
  \<open>errors.Is\<close>. The loop then runs the child, sleeps for the backoff timeout of the
  current index without logging a healthy child, and goes on with its next turn at the
  index after.
\<close>

theorem exit_before_report_backs_off:
  assumes "cancel_before ev = None" and "lctx st = None" and "executable ev = Inr bin"
    and "args p \<noteq> []"
    and "list_all no_report (wait_events ev)"
    and "list_ex is_ChildExit (wait_events ev)"
    and "list_all (event_unlike (ErrorString (lheap st) ''ready'')) (wait_events ev)"
  shows "monitor_loop opts envKey p st (ev # evs) =
     (Run (command opts envKey p bin (server_url ev)) #
      Sleep (backoff_timeout opts (li st)) #
      fst (monitor_loop opts envKey p
             \<lparr>lctx = cancel_opt (cancel_asleep ev) (outer_after None (wait_events ev)),
              li = Suc (li st), lheap = Suc (lheap st)\<rparr> evs),
      snd (monitor_loop opts envKey p
             \<lparr>lctx = cancel_opt (cancel_asleep ev) (outer_after None (wait_events ev)),
              li = Suc (li st), lheap = Suc (lheap st)\<rparr> evs))"
proof -
  have st: "st\<lparr>lctx := None\<rparr> = st" using assms(2) by simp
  have "attempt opts envKey p bin st ev =
           ([Run (command opts envKey p bin (server_url ev)),
             Sleep (backoff_timeout opts (li st))],
            Some \<lparr>lctx = cancel_opt (cancel_asleep ev) (outer_after None (wait_events ev)),
                  li = li st, lheap = Suc (lheap st)\<rparr>)"
    using assms(2,5,6,7) by (rule attempt_exit_before_report)
  then show ?thesis
    using assms(1-4) by (simp add: cancel_opt_def st case_prod_beta)
qed

theorem exit_before_report_backs_off_witness:
  "monitor_loop (setDefaults new_Options) ''KEY'' example_process
      \<lparr>lctx = None, li = 0, lheap = 0\<rparr> [clean_exit, clean_exit] =
     ([Run (command (setDefaults new_Options) ''KEY'' example_process ''/bin/app''
          ''http://127.0.0.1:4000''),
       Sleep 1000000000,
       Run (command (setDefaults new_Options) ''KEY'' example_process ''/bin/app''
          ''http://127.0.0.1:4000''),
       Sleep 2000000000],
      Unfinished)"
proof -
  have a: "cancel_before clean_exit = None" by (simp add: clean_exit_def)
  have b: "lctx \<lparr>lctx = None, li = 0, lheap = 0\<rparr> = None" by simp
  have c: "executable clean_exit = Inr ''/bin/app''" by (simp add: clean_exit_def)
  have d: "args example_process \<noteq> []" by (simp add: example_process_def)
  have e: "list_all no_report (wait_events clean_exit)" by (simp add: clean_exit_def)
  have f: "list_ex is_ChildExit (wait_events clean_exit)" by (simp add: clean_exit_def)
  have g: "list_all (event_unlike (ErrorString (lheap \<lparr>lctx = None, li = 0, lheap = 0\<rparr>) ''ready''))
      (wait_events clean_exit)"
    by (simp add: clean_exit_def)
  have h: "backoff_timeout (setDefaults new_Options) 0 = 1000000000"
    by (simp add: backoff_timeout_def min_duration_def setDefaults_def new_Options_def Let_def
        Second_def Minute_def word_sless_alt)
  have i: "cancel_opt (cancel_asleep clean_exit) (outer_after None (wait_events clean_exit)) = None"
    by (simp add: clean_exit_def cancel_opt_def)
  have j: "server_url clean_exit = ''http://127.0.0.1:4000''" by (simp add: clean_exit_def)
  have k: "monitor_loop (setDefaults new_Options) ''KEY'' example_process
      \<lparr>lctx = None, li = Suc 0, lheap = Suc 0\<rparr> [clean_exit] =
     ([Run (command (setDefaults new_Options) ''KEY'' example_process ''/bin/app''
          ''http://127.0.0.1:4000''),
       Sleep 2000000000],
      Unfinished)"
    by code_simp
  show ?thesis
    using exit_before_report_backs_off [OF a b c d e f g, of "setDefaults new_Options" "''KEY''"
        "[clean_exit]"] h i j k
    by simp
qed

text \<open>
  The claim as first stated covers every such attempt. When the outer context is
  cancelled with a cause whose \<open>Is\<close> method answers true, and the child then exits
  without a report, the waiter returns nil: the monitor logs a healthy child and does not
  sleep.
\<close>

theorem exit_with_matching_cancel_is_healthy:
  "list_all no_report (wait_events cancelled_then_exit)
   \<and> list_ex is_ChildExit (wait_events cancelled_then_exit)
   \<and> actions (SelfMonitor None ''KEY'' None example_process 0 [cancelled_then_exit]) =
       [Run (command (setDefaults new_Options) ''KEY'' example_process ''/bin/app''
          ''http://127.0.0.1:4000''), Healthy]
   \<and> sleeps (actions (SelfMonitor None ''KEY'' None example_process 0 [cancelled_then_exit])) = []"
  by code_simp

subsection \<open>Validation and the child's early return\<close>

text \<open>
  C6, as amended. The options are checked first: when the maximum backoff is smaller than
  the minimum after the defaults, \<open>SelfMonitor\<close> returns the configuration error,
  whatever \<open>envKey\<close> is; when the options pass and \<open>envKey\<close> is empty it returns
  \<open>os.ErrInvalid\<close>. In both cases it has run no child.
\<close>

theorem invalid_calls_rejected:
  "(MaxBackoffTimeout (effective opts) <s MinBackoffTimeout (effective opts) \<longrightarrow>
      returned (SelfMonitor ctx0 envKey opts p heap evs) =
        Returned (Some (ErrorString heap
          ''max backoff timeout is smaller than min backoff timeout''))
      \<and> actions (SelfMonitor ctx0 envKey opts p heap evs) = [])
   \<and> (\<not> MaxBackoffTimeout (effective opts) <s MinBackoffTimeout (effective opts)
        \<and> envKey = [] \<longrightarrow>
      returned (SelfMonitor ctx0 envKey opts p heap evs) = Returned (Some ErrInvalid)
      \<and> actions (SelfMonitor ctx0 envKey opts p heap evs) = [])"
  by (simp add: SelfMonitor_def effective_def check_def Let_def)

theorem invalid_calls_rejected_witness:
  "returned (SelfMonitor None ''KEY'' (Some inconsistent_options) example_process 0 [crash]) =
        Returned (Some (ErrorString 0
          ''max backoff timeout is smaller than min backoff timeout''))
   \<and> actions (SelfMonitor None ''KEY'' (Some inconsistent_options) example_process 0 [crash]) = []
   \<and> returned (SelfMonitor None [] None example_process 0 [crash]) = Returned (Some ErrInvalid)
   \<and> actions (SelfMonitor None [] None example_process 0 [crash]) = []"
  using invalid_calls_rejected [of "Some inconsistent_options" None "''KEY''" example_process 0
      "[crash]"]
    invalid_calls_rejected [of None None "[]" example_process 0 "[crash]"]
    inconsistent_options_fail default_options_pass
  by simp

text \<open>
  The claim as first stated promises \<open>os.ErrInvalid\<close> for every empty \<open>envKey\<close>; with an
  empty key and inconsistent options the call returns the configuration error.
\<close>

theorem empty_key_with_inconsistent_options:
  "returned (SelfMonitor None [] (Some inconsistent_options) example_process 0 []) =
     Returned (Some (ErrorString 0
       ''max backoff timeout is smaller than min backoff timeout''))
   \<and> returned (SelfMonitor None [] (Some inconsistent_options) example_process 0 []) \<noteq>
     Returned (Some ErrInvalid)"
  by (simp add: SelfMonitor_def check_def inconsistent_options_def setDefaults_def Let_def
      Second_def word_sless_alt)

text \<open>
  C7, as amended. In a process whose environment holds \<open>envKey\<close> with a non-empty value,
  and with options that pass the check after the defaults (nil options do),
  \<open>SelfMonitor\<close> returns nil and has run no child.
\<close>

theorem child_returns_nil:
  "length (Getenv p envKey) \<noteq> 0 \<Longrightarrow>
   \<not> MaxBackoffTimeout (effective opts) <s MinBackoffTimeout (effective opts) \<Longrightarrow>
   returned (SelfMonitor ctx0 envKey opts p heap evs) = Returned None
   \<and> actions (SelfMonitor ctx0 envKey opts p heap evs) = []"
  by (auto simp add: SelfMonitor_def effective_def check_def Let_def Getenv_def)

theorem child_returns_nil_witness:
  "length (Getenv child_process ''KEY'') \<noteq> 0
   \<and> returned (SelfMonitor None ''KEY'' None child_process 0 [crash]) = Returned None
   \<and> actions (SelfMonitor None ''KEY'' None child_process 0 [crash]) = []"
proof -
  have a: "length (Getenv child_process ''KEY'') \<noteq> 0"
    by (simp add: Getenv_def child_process_def)
  show ?thesis
    using child_returns_nil [OF a default_options_pass, of None 0 "[crash]"] a by simp
qed

text \<open>
  The claim as first stated covers every call in such a process; with inconsistent
  options the call returns the configuration error, not nil.
\<close>

theorem child_with_inconsistent_options:
  "length (Getenv child_process ''KEY'') \<noteq> 0
   \<and> returned (SelfMonitor None ''KEY'' (Some inconsistent_options) child_process 0 []) \<noteq>
     Returned None"
  by (simp add: SelfMonitor_def check_def inconsistent_options_def setDefaults_def Let_def
      Second_def word_sless_alt Getenv_def child_process_def)

subsection \<open>The environment of the background process\<close>

text \<open>
  C8. Every process that \<open>Daemonize\<close> starts is started in the foreground role (the
  caller's environment has no value for \<open>envKey\<close>) with an environment of exactly four
  entries: \<open>PATH\<close>, \<open>USER\<close> and \<open>HOME\<close> with the caller's values, and \<open>envKey=envValue\<close>.
  In the foreground role, once the executable is found and \<open>/dev/null\<close> is open, the
  first thing \<open>Daemonize\<close> does is to start the process so.
\<close>

theorem background_environment:
  "(StartProcess bin argv attr \<in> set (fst (Daemonize envKey envValue has_check p sys)) \<longrightarrow>
      Env attr = [''PATH='' @ Getenv p ''PATH'', ''USER='' @ Getenv p ''USER'',
                  ''HOME='' @ Getenv p ''HOME'', envKey @ ''='' @ envValue]
      \<and> length (Getenv p envKey) = 0)
   \<and> (length envKey \<noteq> 0 \<and> length envValue \<noteq> 0 \<and> length (Getenv p envKey) = 0
        \<and> lookup sys = Inr path \<and> open_null sys = None \<longrightarrow>
      hd (fst (Daemonize envKey envValue has_check p sys)) =
        StartProcess path (args p)
          \<lparr>Dir = ''/'',
           Env = [''PATH='' @ Getenv p ''PATH'', ''USER='' @ Getenv p ''USER'',
                  ''HOME='' @ Getenv p ''HOME'', envKey @ ''='' @ envValue],
           Files = [''/dev/null'', ''/dev/null'', ''/dev/null'']\<rparr>)"
  by (auto simp add: Daemonize_def daemonizeParent_def daemonizeChild_def Let_def
      split: sum.splits option.splits if_splits)

theorem background_environment_witness:
  "fst (Daemonize ''KEY'' ''v'' True example_process daemon_ok) =
     [StartProcess ''/bin/app'' [''app'', ''-self-monitor'']
        \<lparr>Dir = ''/'', Env = [''PATH=/bin'', ''USER='', ''HOME='', ''KEY=v''],
         Files = [''/dev/null'', ''/dev/null'', ''/dev/null'']\<rparr>]
   \<and> Env \<lparr>Dir = ''/'', Env = [''PATH=/bin'', ''USER='', ''HOME='', ''KEY=v''],
         Files = [''/dev/null'', ''/dev/null'', ''/dev/null'']\<rparr> =
      [''PATH='' @ Getenv example_process ''PATH'', ''USER='' @ Getenv example_process ''USER'',
       ''HOME='' @ Getenv example_process ''HOME'', ''KEY'' @ ''='' @ ''v'']"
proof -
  have a: "fst (Daemonize ''KEY'' ''v'' True example_process daemon_ok) =
     [StartProcess ''/bin/app'' [''app'', ''-self-monitor'']
        \<lparr>Dir = ''/'', Env = [''PATH=/bin'', ''USER='', ''HOME='', ''KEY=v''],
         Files = [''/dev/null'', ''/dev/null'', ''/dev/null'']\<rparr>]"
    by (simp add: Daemonize_def daemonizeParent_def Let_def Getenv_def example_process_def
        daemon_ok_def)
  show ?thesis
    using background_environment [of "''/bin/app''" "[''app'', ''-self-monitor'']"
        "\<lparr>Dir = ''/'', Env = [''PATH=/bin'', ''USER='', ''HOME='', ''KEY=v''],
         Files = [''/dev/null'', ''/dev/null'', ''/dev/null'']\<rparr>" "''KEY''" "''v''" True
        example_process daemon_ok] a
    by simp
qed

subsection \<open>The caller's options\<close>

text \<open>
  C9. After a call with a non-nil \<open>Options\<close> pointer, however the call ends, the caller's
  value has every field that was zero (nil for the signal) replaced by its default, the
  interrupt signal, ten seconds, one second and one minute, and every other field as it
  was.
\<close>

theorem defaults_written_in_place:
  "caller_opts (SelfMonitor ctx0 envKey (Some v0) p heap evs) =
     Some \<lparr>ShutdownSignal =
             (if ShutdownSignal v0 = None then Some Interrupt else ShutdownSignal v0),
           ShutdownTimeout =
             (if ShutdownTimeout v0 = 0 then 10 * Second else ShutdownTimeout v0),
           MinBackoffTimeout =
             (if MinBackoffTimeout v0 = 0 then Second else MinBackoffTimeout v0),
           MaxBackoffTimeout =
             (if MaxBackoffTimeout v0 = 0 then Minute else MaxBackoffTimeout v0)\<rparr>
   \<and> Interrupt = 2 \<and> 10 * Second = 10000000000 \<and> Second = 1000000000
   \<and> Minute = 60000000000"
proof -
  have "caller_opts (SelfMonitor ctx0 envKey (Some v0) p heap evs) = Some (setDefaults v0)"
    by (simp add: SelfMonitor_def Let_def split: prod.splits option.splits)
  moreover have "setDefaults v0 =
     \<lparr>ShutdownSignal = (if ShutdownSignal v0 = None then Some Interrupt else ShutdownSignal v0),
      ShutdownTimeout = (if ShutdownTimeout v0 = 0 then 10 * Second else ShutdownTimeout v0),
      MinBackoffTimeout = (if MinBackoffTimeout v0 = 0 then Second else MinBackoffTimeout v0),
      MaxBackoffTimeout = (if MaxBackoffTimeout v0 = 0 then Minute else MaxBackoffTimeout v0)\<rparr>"
    by (simp add: setDefaults_def Let_def)
  ultimately show ?thesis by (simp add: Interrupt_def Second_def Minute_def)
qed

theorem defaults_written_in_place_witness:
  "caller_opts (SelfMonitor None ''KEY''
      (Some \<lparr>ShutdownSignal = None, ShutdownTimeout = 5, MinBackoffTimeout = 0,
             MaxBackoffTimeout = 7\<rparr>)
      example_process 0 [crash]) =
     Some \<lparr>ShutdownSignal = Some 2, ShutdownTimeout = 5, MinBackoffTimeout = 1000000000,
           MaxBackoffTimeout = 7\<rparr>"
  using defaults_written_in_place [of None "''KEY''"
      "\<lparr>ShutdownSignal = None, ShutdownTimeout = 5, MinBackoffTimeout = 0,
        MaxBackoffTimeout = 7\<rparr>"
      example_process 0 "[crash]"]
  by (simp add: Interrupt_def Second_def)

subsection \<open>The sentinel\<close>

text \<open>
  C10, as amended. A report whose body is the text \<open>ready\<close> makes the waiter return an
  error with that text: the error the handler allocates for it is not the sentinel,
  although both read \<open>ready\<close>. And whenever the waiter returns nil, and no cause from
  outside (a failed read, the parent's or the caller's cause) is taken for the sentinel
  by \<open>errors.Is\<close>, a report with an empty body has arrived.
\<close>

theorem success_by_sentinel_identity:
  "await heap addr (Request (Inr ''ready'') # evs) None first =
     Some (Some (ErrorString (Suc heap) ''ready''))
   \<and> Error (ErrorString (Suc heap) ''ready'') = ''ready''
   \<and> (list_all (ev_unlike (ErrorString heap ''ready'')) evs'
        \<and> ctx_unlike (ErrorString heap ''ready'') caller
        \<and> await heap addr evs' caller first' = Some None
      \<longrightarrow> Request (Inr []) \<in> set evs')"
proof (intro conjI impI)
  have "''ready'' \<noteq> []" by simp
  from await_first [OF first_failed [OF this]]
  show "await heap addr (Request (Inr ''ready'') # evs) None first =
      Some (Some (ErrorString (Suc heap) ''ready''))"
    by (simp add: select_second)
  show "Error (ErrorString (Suc heap) ''ready'') = ''ready''" by simp
  show "Request (Inr []) \<in> set evs'"
    if "list_all (ev_unlike (ErrorString heap ''ready'')) evs'
        \<and> ctx_unlike (ErrorString heap ''ready'') caller
        \<and> await heap addr evs' caller first' = Some None"
    using that nil_needs_empty_report by blast
qed

theorem success_by_sentinel_identity_witness:
  "await 0 ''http://127.0.0.1:4000'' [Request (Inr ''ready'')] None True =
     Some (Some (ErrorString 1 ''ready''))
   \<and> await 0 ''http://127.0.0.1:4000'' [Request (Inr [])] None True = Some None
   \<and> Request (Inr []) \<in> set [Request (Inr [])]"
proof -
  have a: "await 0 ''http://127.0.0.1:4000'' [Request (Inr [])] None True = Some None"
    by (simp add: await_def receiver_def Receiver_def handler_def rcancel_def cancel_def
        WithCancelCause_def select_cause_def)
  have b: "list_all (ev_unlike (ErrorString 0 ''ready'')) [Request (Inr [])]" by simp
  have c: "ctx_unlike (ErrorString 0 ''ready'') None" by (simp add: ctx_unlike_def)
  show ?thesis
    using success_by_sentinel_identity [of 0 "''http://127.0.0.1:4000''" "[]" True
        "[Request (Inr [])]" None True] a b c
    by simp
qed

text \<open>
  The claim as first stated lets nothing but an empty-body report yield nil. A parent's
  cause whose \<open>Is\<close> method answers true for targets that read \<open>ready\<close> yields nil with no
  report at all: \<open>errors.Is\<close> asks the cause's own method, which goes by the text.
\<close>

theorem nil_without_any_report:
  "await 0 ''http://127.0.0.1:4000''
      [ParentDone (IsError ''shutting down'' (TargetText ''ready''))] None True = Some None
   \<and> Request (Inr []) \<notin>
       set [ParentDone (IsError ''shutting down'' (TargetText ''ready''))]"
  by (simp add: await_def receiver_def Receiver_def rcancel_def cancel_def
      WithCancelCause_def select_cause_def)

end
